theory Spec2Isabelle
  imports Main "HOL-Library.AList"
begin

section \<open>The Meli API client of \<^verbatim>\<open>src/meli/meli.functions.ts\<close>\<close>

text \<open>
  The class \<^verbatim>\<open>MeliFunctions\<close> wraps an axios instance. A request interceptor writes
  the bearer token of the current user into every request, a response interceptor answers
  a 401 by one refresh exchange and one retried dispatch, and eighteen methods build a
  request, dispatch it and catch what the dispatch throws.

  The embedding is shallow. Promises are results: a rejected promise (a \<^verbatim>\<open>throw\<close>) is
  \<open>Inl\<close> of the thrown value, a resolved one is \<open>Inr\<close>. The mutable objects of the
  source (\<^verbatim>\<open>req.user.config\<close> and the request configuration) are passed and returned
  explicitly. What the surroundings answer (the upstream API, the refresh endpoint of
  \<^verbatim>\<open>MeliOauth\<close>, the listeners of the event emitter) is a parameter \<open>env\<close>, and every
  call to them, and every write to the stored tokens, is written to a trace, so that
  "how many" and "in which order" are statements about a list. \<^verbatim>\<open>console.log\<close> is left out.
\<close>

subsection \<open>JavaScript values\<close>

text \<open>
  A JavaScript number that is an integer of magnitude below \<open>10^21\<close> prints in decimal
  digits; identifiers and page sizes are such numbers, and they are modelled as \<open>int\<close>.
  A number is falsy exactly when it is zero, a string exactly when it is empty;
  \<open>truthy_number\<close> and \<open>truthy_string\<close> give the value of a condition when it holds.
\<close>

fun nat_toString :: "nat \<Rightarrow> string" where
  "nat_toString n =
     (if n < 10 then [''0123456789'' ! n]
      else nat_toString (n div 10) @ [''0123456789'' ! (n mod 10)])"

declare nat_toString.simps [simp del]

definition number_toString :: "int \<Rightarrow> string" where
  "number_toString i =
     (if i < 0 then ''-'' @ nat_toString (nat (- i)) else nat_toString (nat i))"

definition truthy_number :: "int option \<Rightarrow> int option" where
  "truthy_number v = (case v of None \<Rightarrow> None | Some n \<Rightarrow> if n \<noteq> 0 then Some n else None)"

definition truthy_string :: "string option \<Rightarrow> string option" where
  "truthy_string v = (case v of None \<Rightarrow> None | Some s \<Rightarrow> if s \<noteq> [] then Some s else None)"

text \<open>Request bodies are plain JSON objects.\<close>

datatype json = JString string | JNumber int | JObject "(string \<times> json) list"

subsection \<open>URLSearchParams\<close>

text \<open>
  The query of a request is a \<^verbatim>\<open>URLSearchParams\<close> of Node's \<^verbatim>\<open>url\<close> module: a list
  of name-value pairs in the order of their insertion. \<^verbatim>\<open>append\<close> adds a pair at the
  end; \<^verbatim>\<open>delete(name)\<close> removes the pairs whose name is \<^verbatim>\<open>name\<close>, and no other.
\<close>

type_synonym URLSearchParams = "(string \<times> string) list"

definition append_param :: "URLSearchParams \<Rightarrow> string \<Rightarrow> string \<Rightarrow> URLSearchParams" where
  "append_param ps name v = ps @ [(name, v)]"

definition delete_param :: "URLSearchParams \<Rightarrow> string \<Rightarrow> URLSearchParams" where
  "delete_param ps name = filter (\<lambda>p. fst p \<noteq> name) ps"

definition has_param :: "URLSearchParams \<Rightarrow> string \<Rightarrow> bool" where
  "has_param ps name = (name \<in> fst ` set ps)"

subsection \<open>Requests, responses and thrown values\<close>

datatype http_method = GET | POST | PUT | DELETE

text \<open>
  The request configuration of axios, with the fields this client sets. \<open>sent\<close> is the
  marker the response interceptor writes on a request it has retried; it is absent
  (\<open>False\<close>) on every request a method builds.
\<close>

record config =
  method' :: http_method
  url :: string
  params :: "URLSearchParams option"
  data :: "json option"
  headers :: "(string \<times> string) list"
  sent :: bool

record AxiosResponse =
  status :: int
  response_data :: string

text \<open>
  \<^verbatim>\<open>ErrorActions\<close> is declared in \<^verbatim>\<open>types/actions.types\<close>, which is not among the
  sources; the client uses its member \<^verbatim>\<open>LinkMeli\<close> and no other.
\<close>

datatype ErrorActions = LinkMeli

text \<open>
  What a dispatch, the refresh exchange or the emitter can throw. An \<open>AxiosError\<close> is
  the error axios rejects with: its \<^verbatim>\<open>isAxiosError\<close> is true, its \<^verbatim>\<open>config\<close> is the
  configuration of the request that failed, and its \<^verbatim>\<open>response\<close> is the upstream
  response when the upstream answered, and undefined when it did not (a network-level
  failure). \<open>UnauthorizedException\<close> is the exception of Nest the interceptor throws,
  with the message and action of its body. \<open>OtherError\<close> is any other thrown value: it
  has no \<^verbatim>\<open>isAxiosError\<close>, no \<^verbatim>\<open>response\<close> and no \<^verbatim>\<open>config\<close>.
\<close>

datatype js_error =
    AxiosError "AxiosResponse option" config
  | UnauthorizedException string ErrorActions
  | OtherError string

fun isAxiosError :: "js_error \<Rightarrow> bool" where
  "isAxiosError (AxiosError r c) = True"
| "isAxiosError (UnauthorizedException m a) = False"
| "isAxiosError (OtherError m) = False"

text \<open>\<^verbatim>\<open>error?.config\<close> and \<^verbatim>\<open>error?.response?.status\<close>.\<close>

fun error_config :: "js_error \<Rightarrow> config option" where
  "error_config (AxiosError r c) = Some c"
| "error_config (UnauthorizedException m a) = None"
| "error_config (OtherError m) = None"

fun error_status :: "js_error \<Rightarrow> int option" where
  "error_status (AxiosError r c) = map_option status r"
| "error_status (UnauthorizedException m a) = None"
| "error_status (OtherError m) = None"

text \<open>
  What a method returns: a response, \<^verbatim>\<open>undefined\<close>, or the body of an exception of
  Nest (which keeps the body it was built with in its own \<^verbatim>\<open>response\<close> property).
\<close>

datatype js_value =
    Response AxiosResponse
  | ExceptionBody string ErrorActions
  | Undefined

text \<open>\<^verbatim>\<open>error.response\<close>.\<close>

fun error_response :: "js_error \<Rightarrow> js_value" where
  "error_response (AxiosError (Some r) c) = Response r"
| "error_response (AxiosError None c) = Undefined"
| "error_response (UnauthorizedException m a) = ExceptionBody m a"
| "error_response (OtherError m) = Undefined"

subsection \<open>The user's configuration, the trace and the surroundings\<close>

text \<open>\<^verbatim>\<open>req.user.config\<close>: the stored token pair and the seller's identifier.\<close>

record user_config =
  meliAccess :: string
  meliRefresh :: string
  meliId :: int

text \<open>
  The data of the refresh endpoint's answer. \<open>error\<close> is the value under the key
  \<^verbatim>\<open>error\<close> when the object has that key: \<^verbatim>\<open>'error' in data\<close> is \<open>error d \<noteq> None\<close>.
\<close>

record refresh_data =
  error :: "string option"
  access_token :: string
  refresh_token :: string

datatype event =
    Dispatch config
  | RefreshExchange string
  | StoreAccess string
  | StoreRefresh string
  | TokensUpdate refresh_data

record world =
  userConfig :: user_config
  trace :: "event list"

datatype transport_outcome =
    Resolved AxiosResponse
  | RejectedAxios "AxiosResponse option"
  | RejectedOther string

datatype refresh_outcome = RefreshReturns refresh_data | RefreshThrows js_error

datatype emit_outcome = EmitResolves | EmitRejects js_error

text \<open>
  The surroundings: the adapter of axios answers a request, \<^verbatim>\<open>MeliOauth.refreshAccessToken\<close>
  a refresh token, \<^verbatim>\<open>EventEmitter2.emitAsync\<close> the payload of \<^verbatim>\<open>meli.tokens.update\<close>.
  One call of the instance asks the adapter at most twice, and then with two requests
  that differ in their marker, and asks the other two at most once; so a function of the
  argument alone covers every way the surroundings can answer one call.
\<close>

record env =
  transport :: "config \<Rightarrow> transport_outcome"
  refreshAccessToken :: "string \<Rightarrow> refresh_outcome"
  emitAsync :: "refresh_data \<Rightarrow> emit_outcome"

definition record_event :: "world \<Rightarrow> event \<Rightarrow> world" where
  "record_event w e = w\<lparr>trace := trace w @ [e]\<rparr>"

subsection \<open>The axios instance and its interceptors\<close>

text \<open>
  The token getters and setters of the class read and write \<^verbatim>\<open>req.user.config\<close>.
\<close>

definition token :: "world \<Rightarrow> string" where
  "token w = meliAccess (userConfig w)"

definition sellerId :: "world \<Rightarrow> int" where
  "sellerId w = meliId (userConfig w)"

definition set_token :: "world \<Rightarrow> string \<Rightarrow> world" where
  "set_token w newToken =
     record_event (w\<lparr>userConfig := (userConfig w)\<lparr>meliAccess := newToken\<rparr>\<rparr>)
       (StoreAccess newToken)"

definition set_refreshToken :: "world \<Rightarrow> string \<Rightarrow> world" where
  "set_refreshToken w newToken =
     record_event (w\<lparr>userConfig := (userConfig w)\<lparr>meliRefresh := newToken\<rparr>\<rparr>)
       (StoreRefresh newToken)"

definition set_Authorization :: "config \<Rightarrow> string \<Rightarrow> config" where
  "set_Authorization c tok =
     c\<lparr>headers := AList.update ''Authorization'' (''Bearer '' @ tok) (headers c)\<rparr>"

text \<open>The request interceptor: \<^verbatim>\<open>config.headers.Authorization = `Bearer ${this.token}`\<close>.\<close>

definition request_interceptor :: "world \<Rightarrow> config \<Rightarrow> config" where
  "request_interceptor w c = set_Authorization c (token w)"

definition errorCodes :: "int list" where
  "errorCodes = [401]"

text \<open>\<^verbatim>\<open>errorCodes.includes(error?.response?.status) && !prevRequest?.sent\<close>.\<close>

definition status_blocked :: "js_error \<Rightarrow> bool" where
  "status_blocked err = (case error_status err of None \<Rightarrow> False | Some s \<Rightarrow> s \<in> set errorCodes)"

definition error_sent :: "js_error \<Rightarrow> bool" where
  "error_sent err = (case error_config err of None \<Rightarrow> False | Some c \<Rightarrow> sent c)"

fun call_rank :: "(env \<times> world \<times> config) + (env \<times> world \<times> js_error) \<Rightarrow> nat" where
  "call_rank (Inl (e, w, c)) = (if sent c then 1 else 3)"
| "call_rank (Inr (e, w, err)) =
     (case error_config err of None \<Rightarrow> 0 | Some c \<Rightarrow> if sent c then 0 else 2)"

text \<open>
  \<open>httpInstance\<close> is a call of the axios instance: the request interceptor, the
  dispatch by the adapter, and the response interceptor. A resolved dispatch passes
  through \<^verbatim>\<open>(res) => res\<close>; a rejected one goes to \<open>onRejected\<close>, the second argument of
  \<^verbatim>\<open>interceptors.response.use\<close>, which may call the instance again. The error axios
  builds carries the configuration that was dispatched, marker included, so the retried
  request still has \<open>sent\<close> when it fails. An error with a blocked status and no
  configuration cannot be built from \<open>js_error\<close>; the source would fail on it with a
  \<^verbatim>\<open>TypeError\<close> at \<^verbatim>\<open>prevRequest.sent = true\<close>.
\<close>

function httpInstance :: "env \<Rightarrow> world \<Rightarrow> config \<Rightarrow> world \<times> (js_error + AxiosResponse)"
  and onRejected :: "env \<Rightarrow> world \<Rightarrow> js_error \<Rightarrow> world \<times> (js_error + AxiosResponse)"
where
  "httpInstance e w c =
     (let c1 = request_interceptor w c;
          w1 = record_event w (Dispatch c1)
      in case transport e c1 of
           Resolved res \<Rightarrow> (w1, Inr res)
         | RejectedAxios r \<Rightarrow> onRejected e w1 (AxiosError r c1)
         | RejectedOther m \<Rightarrow> onRejected e w1 (OtherError m))"
| "onRejected e w err =
     (if status_blocked err \<and> \<not> error_sent err then
        (case error_config err of
           None \<Rightarrow> (w, Inl (OtherError ''TypeError''))
         | Some prevRequest \<Rightarrow>
            (let prevRequest1 = prevRequest\<lparr>sent := True\<rparr>;
                 w1 = record_event w (RefreshExchange (meliRefresh (userConfig w)))
             in case refreshAccessToken e (meliRefresh (userConfig w)) of
                  RefreshThrows x \<Rightarrow> (w1, Inl x)
                | RefreshReturns d \<Rightarrow>
                    if error d \<noteq> None then
                      (w1, Inl (UnauthorizedException ''Please link meli again'' LinkMeli))
                    else
                      (let w2 = set_token w1 (access_token d);
                           w3 = set_refreshToken w2 (refresh_token d);
                           prevRequest2 = set_Authorization prevRequest1 (token w3);
                           w4 = record_event w3 (TokensUpdate d)
                       in case emitAsync e d of
                            EmitRejects x \<Rightarrow> (w4, Inl x)
                          | EmitResolves \<Rightarrow> httpInstance e w4 prevRequest2)))
      else (w, Inl err))"
  by pat_completeness auto
termination
  by (relation "measure call_rank")
     (auto simp: error_sent_def request_interceptor_def set_Authorization_def)

declare httpInstance.simps [simp del] onRejected.simps [simp del]

text \<open>The shorthands \<^verbatim>\<open>get\<close>, \<^verbatim>\<open>post\<close>, \<^verbatim>\<open>put\<close> and \<^verbatim>\<open>delete\<close> of the instance.\<close>

definition request_config ::
  "http_method \<Rightarrow> string \<Rightarrow> URLSearchParams option \<Rightarrow> json option \<Rightarrow> config" where
  "request_config m u ps d =
     \<lparr>method' = m, url = u, params = ps, data = d, headers = [], sent = False\<rparr>"

definition instance_get ::
  "env \<Rightarrow> world \<Rightarrow> string \<Rightarrow> URLSearchParams option \<Rightarrow> world \<times> (js_error + AxiosResponse)" where
  "instance_get e w u ps = httpInstance e w (request_config GET u ps None)"

definition instance_post ::
  "env \<Rightarrow> world \<Rightarrow> string \<Rightarrow> json \<Rightarrow> world \<times> (js_error + AxiosResponse)" where
  "instance_post e w u d = httpInstance e w (request_config POST u None (Some d))"

definition instance_put ::
  "env \<Rightarrow> world \<Rightarrow> string \<Rightarrow> json \<Rightarrow> world \<times> (js_error + AxiosResponse)" where
  "instance_put e w u d = httpInstance e w (request_config PUT u None (Some d))"

definition instance_delete ::
  "env \<Rightarrow> world \<Rightarrow> string \<Rightarrow> world \<times> (js_error + AxiosResponse)" where
  "instance_delete e w u = httpInstance e w (request_config DELETE u None None)"

subsection \<open>The methods\<close>

text \<open>
  The \<^verbatim>\<open>try\<close>/\<^verbatim>\<open>catch\<close> of every method but \<^verbatim>\<open>getItem\<close>:
  \<^verbatim>\<open>if (error.isAxiosError) { return error.response; } throw error;\<close>
\<close>

definition catch_isAxiosError ::
  "world \<times> (js_error + AxiosResponse) \<Rightarrow> world \<times> (js_error + js_value)" where
  "catch_isAxiosError r =
     (case r of
        (w, Inr response) \<Rightarrow> (w, Inr (Response response))
      | (w, Inl err) \<Rightarrow>
          if isAxiosError err then (w, Inr (error_response err)) else (w, Inl err))"

text \<open>
  The \<^verbatim>\<open>catch\<close> of \<^verbatim>\<open>getItem\<close>, which casts whatever was thrown to an axios error:
  \<^verbatim>\<open>const axiosError = error as AxiosError<MeliApiError>; return axiosError.response;\<close>
\<close>

definition catch_as_AxiosError ::
  "world \<times> (js_error + AxiosResponse) \<Rightarrow> world \<times> (js_error + js_value)" where
  "catch_as_AxiosError r =
     (case r of
        (w, Inr response) \<Rightarrow> (w, Inr (Response response))
      | (w, Inl err) \<Rightarrow> (w, Inr (error_response err)))"

text \<open>
  \<^verbatim>\<open>GetQuestionsFilters\<close> and \<^verbatim>\<open>MeliSendMessageOptions\<close> are declared in
  \<^verbatim>\<open>types/meli.types\<close>, which is not among the sources; the records have the fields
  the methods read, a field on which \<^verbatim>\<open>toString\<close> is called being a number. Some fields are
  primed, here and in \<open>config\<close>, their names being taken in Isabelle.
\<close>

record QuestionsSort =
  order :: string
  fields' :: string

record GetQuestionsFilters =
  questionId :: "int option"
  from' :: "int option"
  item :: "string option"
  status' :: "string option"
  sort' :: "QuestionsSort option"
  limit :: "int option"
  offset :: "int option"

record MeliSendMessageOptions =
  msgGroupId :: int
  buyerId :: int
  message :: string

text \<open>\<^verbatim>\<open>filters?.f\<close>: undefined when there are no filters.\<close>

definition opt_field :: "('a \<Rightarrow> 'b option) \<Rightarrow> 'a option \<Rightarrow> 'b option" where
  "opt_field f filters = (case filters of None \<Rightarrow> None | Some x \<Rightarrow> f x)"

text \<open>\<^verbatim>\<open>v?.toString() || d\<close>: the digits of a number are never the empty string.\<close>

definition toString_or :: "int option \<Rightarrow> string \<Rightarrow> string" where
  "toString_or v d = (case v of None \<Rightarrow> d | Some n \<Rightarrow> number_toString n)"

text \<open>
  The path and the query \<^verbatim>\<open>getQuestions\<close> builds before it dispatches, statement by
  statement.
\<close>

definition getQuestions_request ::
  "int \<Rightarrow> GetQuestionsFilters option \<Rightarrow> string \<times> URLSearchParams" where
  "getQuestions_request seller filters =
     (let params0 = [];
          url0 = ''/questions/search'';
          (url1, params1) =
            (case (truthy_number (opt_field from' filters), truthy_string (opt_field item filters)) of
               (Some f, Some i) \<Rightarrow>
                 (''/questions/search'',
                  append_param (append_param params0 ''from'' (number_toString f)) ''item'' i)
             | _ \<Rightarrow> (url0, append_param params0 ''seller_id'' (number_toString seller)));
          params2 =
            (case truthy_string (opt_field status' filters) of
               Some st \<Rightarrow> append_param params1 ''status'' st
             | None \<Rightarrow> append_param params1 ''status'' ''UNANSWERED'');
          params3 =
            (case opt_field sort' filters of
               None \<Rightarrow> params2
             | Some s \<Rightarrow>
                 append_param (append_param params2 ''sort_types'' (order s))
                   ''sort_fields'' (fields' s));
          params4 = append_param params3 ''limit'' (toString_or (opt_field limit filters) ''25'');
          params5 = append_param params4 ''offset'' (toString_or (opt_field offset filters) ''0'');
          (url2, params6) =
            (case truthy_number (opt_field questionId filters) of
               Some q \<Rightarrow> (''/questions/'' @ number_toString q, delete_param params5 ''*'')
             | None \<Rightarrow> (url1, params5))
      in (url2, append_param params6 ''api_version'' ''4''))"

definition getQuestionsResponseTime :: "env \<Rightarrow> world \<Rightarrow> world \<times> (js_error + js_value)" where
  "getQuestionsResponseTime e w =
     catch_isAxiosError
       (instance_get e w (number_toString (sellerId w) @ ''/questions/response_time'') None)"

definition getQuestions ::
  "env \<Rightarrow> world \<Rightarrow> GetQuestionsFilters option \<Rightarrow> world \<times> (js_error + js_value)" where
  "getQuestions e w filters =
     (case getQuestions_request (sellerId w) filters of
        (u, ps) \<Rightarrow> catch_isAxiosError (instance_get e w u (Some ps)))"

definition answerQuestion ::
  "env \<Rightarrow> world \<Rightarrow> int \<Rightarrow> string \<Rightarrow> world \<times> (js_error + js_value)" where
  "answerQuestion e w qid answer =
     catch_isAxiosError
       (instance_post e w ''/answers''
          (JObject [(''question_id'', JNumber qid), (''text'', JString answer)]))"

definition deleteQuestion :: "env \<Rightarrow> world \<Rightarrow> int \<Rightarrow> world \<times> (js_error + js_value)" where
  "deleteQuestion e w qid =
     catch_isAxiosError (instance_delete e w (''/questions/'' @ number_toString qid))"

definition searchForItems :: "env \<Rightarrow> world \<Rightarrow> string \<Rightarrow> world \<times> (js_error + js_value)" where
  "searchForItems e w searchQuery =
     catch_isAxiosError
       (instance_get e w
          (''/users/'' @ number_toString (sellerId w) @ ''/items/search?q='' @ searchQuery
             @ ''&status=active'')
          None)"

definition publishItem :: "env \<Rightarrow> world \<Rightarrow> json \<Rightarrow> world \<times> (js_error + js_value)" where
  "publishItem e w itemInfo = catch_isAxiosError (instance_post e w ''/items'' itemInfo)"

definition addDescription ::
  "env \<Rightarrow> world \<Rightarrow> string \<Rightarrow> string \<Rightarrow> world \<times> (js_error + js_value)" where
  "addDescription e w itemId description =
     catch_isAxiosError
       (instance_post e w (''/items/'' @ itemId @ ''/description'')
          (JObject [(''plain_text'', JString description)]))"

definition pauseItem :: "env \<Rightarrow> world \<Rightarrow> string \<Rightarrow> world \<times> (js_error + js_value)" where
  "pauseItem e w itemId =
     catch_isAxiosError
       (instance_put e w (''/items/'' @ itemId) (JObject [(''status'', JString ''paused'')]))"

definition activateItem :: "env \<Rightarrow> world \<Rightarrow> string \<Rightarrow> world \<times> (js_error + js_value)" where
  "activateItem e w itemId =
     catch_isAxiosError
       (instance_put e w (''/items/'' @ itemId) (JObject [(''status'', JString ''active'')]))"

definition changeItemStock ::
  "env \<Rightarrow> world \<Rightarrow> string \<Rightarrow> int \<Rightarrow> world \<times> (js_error + js_value)" where
  "changeItemStock e w itemId newStock =
     catch_isAxiosError
       (instance_put e w (''/items/'' @ itemId)
          (JObject [(''available_quantity'', JNumber newStock)]))"

definition getItems :: "env \<Rightarrow> world \<Rightarrow> world \<times> (js_error + js_value)" where
  "getItems e w =
     catch_isAxiosError
       (instance_get e w (''/users/'' @ number_toString (sellerId w) @ ''/items/search'') None)"

text \<open>\<^verbatim>\<open>attrs.join(',')\<close>.\<close>

fun join_comma :: "string list \<Rightarrow> string" where
  "join_comma [] = []"
| "join_comma [a] = a"
| "join_comma (a # b # bs) = a @ '','' @ join_comma (b # bs)"

definition getItem ::
  "env \<Rightarrow> world \<Rightarrow> string \<Rightarrow> string list option \<Rightarrow> world \<times> (js_error + js_value)" where
  "getItem e w itemId attrs =
     (let params0 = [];
          params1 =
            (case attrs of
               None \<Rightarrow> params0
             | Some as \<Rightarrow> append_param params0 ''attributes'' (join_comma as))
      in catch_as_AxiosError (instance_get e w (''/items/'' @ itemId) (Some params1)))"

definition getUserInfo :: "env \<Rightarrow> world \<Rightarrow> int \<Rightarrow> world \<times> (js_error + js_value)" where
  "getUserInfo e w buyer =
     catch_isAxiosError (instance_get e w (''/users/'' @ number_toString buyer) None)"

definition getOrders_url :: "int \<Rightarrow> string option \<Rightarrow> string" where
  "getOrders_url seller filters =
     (if filters = Some ''recent'' then
        ''/orders/search/recent?seller='' @ number_toString seller @ ''&sort=date_desc''
      else if filters = Some ''pending'' then
        ''/orders/search/pending?seller='' @ number_toString seller @ ''&sort=date_desc''
      else if filters = Some ''archived'' then
        ''/orders/search/archived?seller='' @ number_toString seller @ ''&sort=date_desc''
      else ''/orders/search?seller='' @ number_toString seller @ ''&sort=date_desc'')"

definition getOrders ::
  "env \<Rightarrow> world \<Rightarrow> string option \<Rightarrow> world \<times> (js_error + js_value)" where
  "getOrders e w filters =
     catch_isAxiosError (instance_get e w (getOrders_url (sellerId w) filters) None)"

definition getOrderInfo :: "env \<Rightarrow> world \<Rightarrow> int \<Rightarrow> world \<times> (js_error + js_value)" where
  "getOrderInfo e w orderId =
     catch_isAxiosError (instance_get e w (''/orders/'' @ number_toString orderId) None)"

definition getOrderMessages :: "env \<Rightarrow> world \<Rightarrow> int \<Rightarrow> world \<times> (js_error + js_value)" where
  "getOrderMessages e w orderId =
     catch_isAxiosError
       (instance_get e w
          (''/messages/packs/'' @ number_toString orderId @ ''/sellers/''
             @ number_toString (sellerId w) @ ''?mark_as_read=false?tag=post_sale'')
          None)"

definition sendMessage ::
  "env \<Rightarrow> world \<Rightarrow> MeliSendMessageOptions \<Rightarrow> world \<times> (js_error + js_value)" where
  "sendMessage e w options =
     catch_isAxiosError
       (instance_post e w
          (''/messages/packs/'' @ number_toString (msgGroupId options) @ ''/sellers/''
             @ number_toString (sellerId w) @ ''?tag=post_sale'')
          (JObject
             [(''from'', JObject [(''user_id'', JNumber (sellerId w))]),
              (''to'', JObject [(''user_id'', JNumber (buyerId options))]),
              (''text'', JString (message options))]))"

definition getResource :: "env \<Rightarrow> world \<Rightarrow> string \<Rightarrow> world \<times> (js_error + js_value)" where
  "getResource e w resource = catch_isAxiosError (instance_get e w resource None)"

text \<open>
  A call of one of the eighteen methods with its arguments, the request the call builds,
  and the call itself.
\<close>

datatype operation =
    GetQuestionsResponseTime
  | GetQuestions "GetQuestionsFilters option"
  | AnswerQuestion int string
  | DeleteQuestion int
  | SearchForItems string
  | PublishItem json
  | AddDescription string string
  | PauseItem string
  | ActivateItem string
  | ChangeItemStock string int
  | GetItems
  | GetItem string "string list option"
  | GetUserInfo int
  | GetOrders "string option"
  | GetOrderInfo int
  | GetOrderMessages int
  | SendMessage MeliSendMessageOptions
  | GetResource string

fun call_method :: "env \<Rightarrow> world \<Rightarrow> operation \<Rightarrow> world \<times> (js_error + js_value)" where
  "call_method e w GetQuestionsResponseTime = getQuestionsResponseTime e w"
| "call_method e w (GetQuestions filters) = getQuestions e w filters"
| "call_method e w (AnswerQuestion qid answer) = answerQuestion e w qid answer"
| "call_method e w (DeleteQuestion qid) = deleteQuestion e w qid"
| "call_method e w (SearchForItems q) = searchForItems e w q"
| "call_method e w (PublishItem itemInfo) = publishItem e w itemInfo"
| "call_method e w (AddDescription itemId description) = addDescription e w itemId description"
| "call_method e w (PauseItem itemId) = pauseItem e w itemId"
| "call_method e w (ActivateItem itemId) = activateItem e w itemId"
| "call_method e w (ChangeItemStock itemId newStock) = changeItemStock e w itemId newStock"
| "call_method e w GetItems = getItems e w"
| "call_method e w (GetItem itemId attrs) = getItem e w itemId attrs"
| "call_method e w (GetUserInfo buyer) = getUserInfo e w buyer"
| "call_method e w (GetOrders filters) = getOrders e w filters"
| "call_method e w (GetOrderInfo orderId) = getOrderInfo e w orderId"
| "call_method e w (GetOrderMessages orderId) = getOrderMessages e w orderId"
| "call_method e w (SendMessage options) = sendMessage e w options"
| "call_method e w (GetResource resource) = getResource e w resource"

text \<open>
  The dispatch of a call: what the instance is called with inside the \<^verbatim>\<open>try\<close> block.
\<close>

fun dispatch_of :: "env \<Rightarrow> world \<Rightarrow> operation \<Rightarrow> world \<times> (js_error + AxiosResponse)" where
  "dispatch_of e w GetQuestionsResponseTime =
     instance_get e w (number_toString (sellerId w) @ ''/questions/response_time'') None"
| "dispatch_of e w (GetQuestions filters) =
     instance_get e w (fst (getQuestions_request (sellerId w) filters))
       (Some (snd (getQuestions_request (sellerId w) filters)))"
| "dispatch_of e w (AnswerQuestion qid answer) =
     instance_post e w ''/answers''
       (JObject [(''question_id'', JNumber qid), (''text'', JString answer)])"
| "dispatch_of e w (DeleteQuestion qid) =
     instance_delete e w (''/questions/'' @ number_toString qid)"
| "dispatch_of e w (SearchForItems q) =
     instance_get e w
       (''/users/'' @ number_toString (sellerId w) @ ''/items/search?q='' @ q @ ''&status=active'')
       None"
| "dispatch_of e w (PublishItem itemInfo) = instance_post e w ''/items'' itemInfo"
| "dispatch_of e w (AddDescription itemId description) =
     instance_post e w (''/items/'' @ itemId @ ''/description'')
       (JObject [(''plain_text'', JString description)])"
| "dispatch_of e w (PauseItem itemId) =
     instance_put e w (''/items/'' @ itemId) (JObject [(''status'', JString ''paused'')])"
| "dispatch_of e w (ActivateItem itemId) =
     instance_put e w (''/items/'' @ itemId) (JObject [(''status'', JString ''active'')])"
| "dispatch_of e w (ChangeItemStock itemId newStock) =
     instance_put e w (''/items/'' @ itemId) (JObject [(''available_quantity'', JNumber newStock)])"
| "dispatch_of e w GetItems =
     instance_get e w (''/users/'' @ number_toString (sellerId w) @ ''/items/search'') None"
| "dispatch_of e w (GetItem itemId attrs) =
     instance_get e w (''/items/'' @ itemId)
       (Some (case attrs of None \<Rightarrow> [] | Some as \<Rightarrow> append_param [] ''attributes'' (join_comma as)))"
| "dispatch_of e w (GetUserInfo buyer) =
     instance_get e w (''/users/'' @ number_toString buyer) None"
| "dispatch_of e w (GetOrders filters) =
     instance_get e w (getOrders_url (sellerId w) filters) None"
| "dispatch_of e w (GetOrderInfo orderId) =
     instance_get e w (''/orders/'' @ number_toString orderId) None"
| "dispatch_of e w (GetOrderMessages orderId) =
     instance_get e w
       (''/messages/packs/'' @ number_toString orderId @ ''/sellers/''
          @ number_toString (sellerId w) @ ''?mark_as_read=false?tag=post_sale'')
       None"
| "dispatch_of e w (SendMessage options) =
     instance_post e w
       (''/messages/packs/'' @ number_toString (msgGroupId options) @ ''/sellers/''
          @ number_toString (sellerId w) @ ''?tag=post_sale'')
       (JObject
          [(''from'', JObject [(''user_id'', JNumber (sellerId w))]),
           (''to'', JObject [(''user_id'', JNumber (buyerId options))]),
           (''text'', JString (message options))])"
| "dispatch_of e w (GetResource resource) = instance_get e w resource None"

subsection \<open>Reading a trace\<close>

fun is_Dispatch :: "event \<Rightarrow> bool" where
  "is_Dispatch (Dispatch c) = True"
| "is_Dispatch (RefreshExchange t) = False"
| "is_Dispatch (StoreAccess t) = False"
| "is_Dispatch (StoreRefresh t) = False"
| "is_Dispatch (TokensUpdate d) = False"

fun is_RefreshExchange :: "event \<Rightarrow> bool" where
  "is_RefreshExchange (Dispatch c) = False"
| "is_RefreshExchange (RefreshExchange t) = True"
| "is_RefreshExchange (StoreAccess t) = False"
| "is_RefreshExchange (StoreRefresh t) = False"
| "is_RefreshExchange (TokensUpdate d) = False"

definition dispatches :: "event list \<Rightarrow> nat" where
  "dispatches evs = length (filter is_Dispatch evs)"

definition refresh_exchanges :: "event list \<Rightarrow> nat" where
  "refresh_exchanges evs = length (filter is_RefreshExchange evs)"

text \<open>What a call added to the trace: the events after those of the world it started in.\<close>

definition new_events :: "world \<Rightarrow> world \<Rightarrow> event list" where
  "new_events w w' = drop (length (trace w)) (trace w')"

definition Authorization :: "config \<Rightarrow> string option" where
  "Authorization c = map_of (headers c) ''Authorization''"

text \<open>
  The world and the request of the retry, as the interceptor has them when the refresh
  exchange has returned \<open>d\<close> and the notification has been emitted: the exchange is on
  the trace, both tokens are stored, the request is marked and carries the new token.
\<close>

definition refreshed_world :: "world \<Rightarrow> refresh_data \<Rightarrow> world" where
  "refreshed_world w d =
     record_event
       (set_refreshToken
          (set_token (record_event w (RefreshExchange (meliRefresh (userConfig w))))
             (access_token d))
          (refresh_token d))
       (TokensUpdate d)"

definition retried_request :: "config \<Rightarrow> refresh_data \<Rightarrow> config" where
  "retried_request c d = set_Authorization (c\<lparr>sent := True\<rparr>) (access_token d)"

fun is_GetItem :: "operation \<Rightarrow> bool" where
  "is_GetItem (GetItem itemId attrs) = True"
| "is_GetItem other = False"

subsection \<open>Concrete inputs\<close>

definition no_filters :: GetQuestionsFilters where
  "no_filters = \<lparr>questionId = None, from' = None, item = None, status' = None,
     sort' = None, limit = None, offset = None\<rparr>"

definition seller7 :: world where
  "seller7 = \<lparr>userConfig = \<lparr>meliAccess = ''stale'', meliRefresh = ''r0'', meliId = 7\<rparr>,
     trace = []\<rparr>"

definition response_of :: "int \<Rightarrow> AxiosResponse" where
  "response_of s = \<lparr>status = s, response_data = []\<rparr>"

definition fresh_tokens :: refresh_data where
  "fresh_tokens = \<lparr>error = None, access_token = ''fresh'', refresh_token = ''r1''\<rparr>"

definition invalid_grant :: refresh_data where
  "invalid_grant = \<lparr>error = Some ''invalid_grant'', access_token = [], refresh_token = []\<rparr>"

text \<open>An upstream that answers 401 to a request not yet retried and 200 to a retried one.\<close>

definition expired_once :: "config \<Rightarrow> transport_outcome" where
  "expired_once c = (if sent c then Resolved (response_of 200) else RejectedAxios (Some (response_of 401)))"

definition env_refreshes :: env where
  "env_refreshes = \<lparr>transport = expired_once,
     refreshAccessToken = (\<lambda>t. RefreshReturns fresh_tokens),
     emitAsync = (\<lambda>d. EmitResolves)\<rparr>"

definition env_unlinked :: env where
  "env_unlinked = \<lparr>transport = expired_once,
     refreshAccessToken = (\<lambda>t. RefreshReturns invalid_grant),
     emitAsync = (\<lambda>d. EmitResolves)\<rparr>"

definition env_listener_fails :: env where
  "env_listener_fails = \<lparr>transport = expired_once,
     refreshAccessToken = (\<lambda>t. RefreshReturns fresh_tokens),
     emitAsync = (\<lambda>d. EmitRejects (OtherError ''listener failed''))\<rparr>"

definition env_answers :: "int \<Rightarrow> env" where
  "env_answers s = \<lparr>transport = (\<lambda>c. RejectedAxios (Some (response_of s))),
     refreshAccessToken = (\<lambda>t. RefreshReturns fresh_tokens),
     emitAsync = (\<lambda>d. EmitResolves)\<rparr>"

definition env_offline :: env where
  "env_offline = \<lparr>transport = (\<lambda>c. RejectedAxios None),
     refreshAccessToken = (\<lambda>t. RefreshReturns fresh_tokens),
     emitAsync = (\<lambda>d. EmitResolves)\<rparr>"

definition env_adapter_throws :: env where
  "env_adapter_throws = \<lparr>transport = (\<lambda>c. RejectedOther ''TypeError''),
     refreshAccessToken = (\<lambda>t. RefreshReturns fresh_tokens),
     emitAsync = (\<lambda>d. EmitResolves)\<rparr>"

definition sites_request :: config where
  "sites_request = request_config GET ''/sites/MLA'' None None"

text \<open>
  What the caller gets from a dispatch the response interceptor leaves alone: the
  response, or the error axios builds for the request.
\<close>

definition retry_result :: "env \<Rightarrow> config \<Rightarrow> js_error + AxiosResponse" where
  "retry_result e c =
     (case transport e c of
        Resolved res \<Rightarrow> Inr res
      | RejectedAxios r \<Rightarrow> Inl (AxiosError r c)
      | RejectedOther m \<Rightarrow> Inl (OtherError m))"

section \<open>The query of the question search\<close>

lemma number_toString_123: "number_toString 123 = ''123''"
  by (simp add: number_toString_def nat_toString.simps)

text \<open>
  C10. Whatever the filters of \<^verbatim>\<open>getQuestions\<close> are, the single-question path included,
  the request it dispatches has \<^verbatim>\<open>api_version=4\<close> among its query parameters.
\<close>

theorem getQuestions_api_version:
  "getQuestions e w filters =
     catch_isAxiosError
       (instance_get e w (fst (getQuestions_request (sellerId w) filters))
          (Some (snd (getQuestions_request (sellerId w) filters))))
   \<and> (''api_version'', ''4'') \<in> set (snd (getQuestions_request (sellerId w) filters))"
  by (simp add: getQuestions_def getQuestions_request_def Let_def append_param_def
        split: prod.splits option.splits)

text \<open>
  C7. \<^verbatim>\<open>getQuestions\<close> without filters (no argument, or an object with no filter set)
  dispatches a GET to the search path whose query has \<^verbatim>\<open>status=UNANSWERED\<close>,
  \<^verbatim>\<open>limit=25\<close> and \<^verbatim>\<open>offset=0\<close>, after the seller's identifier and before the version.
\<close>

theorem getQuestions_no_filters:
  "getQuestions e w None =
     catch_isAxiosError
       (instance_get e w ''/questions/search''
          (Some [(''seller_id'', number_toString (sellerId w)), (''status'', ''UNANSWERED''),
                 (''limit'', ''25''), (''offset'', ''0''), (''api_version'', ''4'')]))
   \<and> getQuestions e w (Some no_filters) =
     catch_isAxiosError
       (instance_get e w ''/questions/search''
          (Some [(''seller_id'', number_toString (sellerId w)), (''status'', ''UNANSWERED''),
                 (''limit'', ''25''), (''offset'', ''0''), (''api_version'', ''4'')]))"
  by (simp add: getQuestions_def getQuestions_request_def Let_def append_param_def
        opt_field_def truthy_number_def truthy_string_def toString_or_def no_filters_def)

text \<open>
  C5. With \<^verbatim>\<open>{questionId: 123, status: 'ANSWERED'}\<close> the request goes to the
  single-question path \<^verbatim>\<open>/questions/123\<close>, but its query is the one of the search:
  \<^verbatim>\<open>params.delete('*')\<close> removes the parameters named \<^verbatim>\<open>*\<close>, of which there are none,
  so the seller's identifier, the status filter and the page are all still there.
\<close>

theorem getQuestions_questionId_keeps_status:
  "getQuestions e w (Some (no_filters\<lparr>questionId := Some 123, status' := Some ''ANSWERED''\<rparr>)) =
     catch_isAxiosError
       (instance_get e w ''/questions/123''
          (Some [(''seller_id'', number_toString (sellerId w)), (''status'', ''ANSWERED''),
                 (''limit'', ''25''), (''offset'', ''0''), (''api_version'', ''4'')]))"
  by (simp add: getQuestions_def getQuestions_request_def Let_def append_param_def
        delete_param_def number_toString_123
        opt_field_def truthy_number_def truthy_string_def toString_or_def no_filters_def)

text \<open>
  C6. When \<^verbatim>\<open>from\<close> and \<^verbatim>\<open>item\<close> are both supplied and truthy (a non-zero
  number, a non-empty string), both are in the query and \<^verbatim>\<open>seller_id\<close> is not. When
  either is missing or falsy, neither is in the query and \<^verbatim>\<open>seller_id\<close> is. The path is
  the search path whenever no truthy question identifier is supplied.
\<close>

theorem getQuestions_from_item:
  "(truthy_number (opt_field from' filters) = Some f \<and> truthy_string (opt_field item filters) = Some i
      \<longrightarrow> (''from'', number_toString f) \<in> set (snd (getQuestions_request seller filters))
        \<and> (''item'', i) \<in> set (snd (getQuestions_request seller filters))
        \<and> \<not> has_param (snd (getQuestions_request seller filters)) ''seller_id'')
   \<and> (truthy_number (opt_field from' filters) = None \<or> truthy_string (opt_field item filters) = None
      \<longrightarrow> \<not> has_param (snd (getQuestions_request seller filters)) ''from''
        \<and> \<not> has_param (snd (getQuestions_request seller filters)) ''item''
        \<and> (''seller_id'', number_toString seller) \<in> set (snd (getQuestions_request seller filters)))
   \<and> (truthy_number (opt_field questionId filters) = None
      \<longrightarrow> fst (getQuestions_request seller filters) = ''/questions/search'')"
  by (auto simp: getQuestions_request_def Let_def append_param_def delete_param_def has_param_def
        split: prod.splits option.splits)

theorem getQuestions_from_item_witness:
  "(''from'', ''5'') \<in> set (snd (getQuestions_request 7 (Some (no_filters\<lparr>from' := Some 5, item := Some ''MLA1''\<rparr>))))
   \<and> (''item'', ''MLA1'') \<in> set (snd (getQuestions_request 7 (Some (no_filters\<lparr>from' := Some 5, item := Some ''MLA1''\<rparr>))))
   \<and> \<not> has_param (snd (getQuestions_request 7 (Some (no_filters\<lparr>from' := Some 5, item := Some ''MLA1''\<rparr>)))) ''seller_id''
   \<and> \<not> has_param (snd (getQuestions_request 7 (Some (no_filters\<lparr>from' := Some 5\<rparr>)))) ''from''
   \<and> (''seller_id'', ''7'') \<in> set (snd (getQuestions_request 7 (Some (no_filters\<lparr>from' := Some 5\<rparr>))))
   \<and> fst (getQuestions_request 7 (Some (no_filters\<lparr>from' := Some 5\<rparr>))) = ''/questions/search''"
  using getQuestions_from_item [of "Some (no_filters\<lparr>from' := Some 5, item := Some ''MLA1''\<rparr>)" 5 "''MLA1''" 7]
    getQuestions_from_item [of "Some (no_filters\<lparr>from' := Some 5\<rparr>)" 5 "''MLA1''" 7]
  by (simp add: opt_field_def truthy_number_def truthy_string_def no_filters_def
        number_toString_def nat_toString.simps)

text \<open>
  C6 as stated fails. The guard is \<^verbatim>\<open>filters?.from && filters.item\<close>, so a \<^verbatim>\<open>from\<close> of
  0 supplied with an item is not appended and the seller's identifier is; and a
  \<^verbatim>\<open>from\<close> supplied without an item but with a question identifier does not go to the
  search path.
\<close>

theorem getQuestions_from_zero_counterexample:
  "getQuestions_request 7 (Some (no_filters\<lparr>from' := Some 0, item := Some ''MLA1''\<rparr>)) =
     (''/questions/search'',
      [(''seller_id'', ''7''), (''status'', ''UNANSWERED''), (''limit'', ''25''),
       (''offset'', ''0''), (''api_version'', ''4'')])
   \<and> getQuestions_request 7 (Some (no_filters\<lparr>from' := Some 5, questionId := Some 9\<rparr>)) =
     (''/questions/9'',
      [(''seller_id'', ''7''), (''status'', ''UNANSWERED''), (''limit'', ''25''),
       (''offset'', ''0''), (''api_version'', ''4'')])"
  by (simp add: getQuestions_request_def Let_def append_param_def delete_param_def
        opt_field_def truthy_number_def truthy_string_def toString_or_def no_filters_def
        number_toString_def nat_toString.simps)

section \<open>The response interceptor\<close>

subsection \<open>The branches of the interceptor\<close>

lemma status_blocked_iff: "status_blocked err \<longleftrightarrow> error_status err = Some 401"
  by (simp add: status_blocked_def errorCodes_def split: option.splits)

lemma onRejected_passes:
  "error_status err \<noteq> Some 401 \<or> error_sent err \<Longrightarrow> onRejected e w err = (w, Inl err)"
  by (auto simp: onRejected.simps status_blocked_iff)

lemma request_interceptor_sent [simp]: "sent (request_interceptor w c) = sent c"
  by (simp add: request_interceptor_def set_Authorization_def)

lemma userConfig_record_event [simp]: "userConfig (record_event w ev) = userConfig w"
  by (simp add: record_event_def)

lemma trace_record_event [simp]: "trace (record_event w ev) = trace w @ [ev]"
  by (simp add: record_event_def)

lemma httpInstance_unfold:
  "httpInstance e w c =
     (case transport e (request_interceptor w c) of
        Resolved res \<Rightarrow> (record_event w (Dispatch (request_interceptor w c)), Inr res)
      | RejectedAxios r \<Rightarrow>
          onRejected e (record_event w (Dispatch (request_interceptor w c)))
            (AxiosError r (request_interceptor w c))
      | RejectedOther m \<Rightarrow>
          onRejected e (record_event w (Dispatch (request_interceptor w c))) (OtherError m))"
  by (simp add: httpInstance.simps Let_def)

lemma httpInstance_sent:
  "sent c \<Longrightarrow> httpInstance e w c =
     (record_event w (Dispatch (request_interceptor w c)), retry_result e (request_interceptor w c))"
  by (simp add: httpInstance_unfold onRejected_passes error_sent_def retry_result_def
        split: transport_outcome.splits)

lemma onRejected_refresh:
  assumes "status r = 401" and "\<not> sent c"
  shows "onRejected e w (AxiosError (Some r) c) =
     (case refreshAccessToken e (meliRefresh (userConfig w)) of
        RefreshThrows x \<Rightarrow> (record_event w (RefreshExchange (meliRefresh (userConfig w))), Inl x)
      | RefreshReturns d \<Rightarrow>
          if error d \<noteq> None then
            (record_event w (RefreshExchange (meliRefresh (userConfig w))),
             Inl (UnauthorizedException ''Please link meli again'' LinkMeli))
          else
            (case emitAsync e d of
               EmitRejects x \<Rightarrow> (refreshed_world w d, Inl x)
             | EmitResolves \<Rightarrow> httpInstance e (refreshed_world w d) (retried_request c d)))"
  using assms
  by (simp add: onRejected.simps status_blocked_iff error_sent_def Let_def refreshed_world_def
        retried_request_def token_def set_refreshToken_def set_token_def record_event_def
        split: refresh_outcome.splits emit_outcome.splits)

lemma userConfig_refreshed_world:
  "userConfig (refreshed_world w d) =
     (userConfig w)\<lparr>meliAccess := access_token d, meliRefresh := refresh_token d\<rparr>"
  by (simp add: refreshed_world_def set_refreshToken_def set_token_def record_event_def)

lemma trace_refreshed_world:
  "trace (refreshed_world w d) =
     trace w @ [RefreshExchange (meliRefresh (userConfig w)), StoreAccess (access_token d),
                StoreRefresh (refresh_token d), TokensUpdate d]"
  by (simp add: refreshed_world_def set_refreshToken_def set_token_def record_event_def)

lemma request_interceptor_retried:
  "request_interceptor (refreshed_world w d) (retried_request c d) = retried_request c d"
  by (simp add: request_interceptor_def retried_request_def set_Authorization_def token_def
        userConfig_refreshed_world)

lemma Authorization_retried:
  "Authorization (retried_request c d) = Some (''Bearer '' @ access_token d)"
  by (simp add: Authorization_def retried_request_def set_Authorization_def update_conv')

lemma sent_retried: "sent (retried_request c d)"
  by (simp add: retried_request_def set_Authorization_def)

lemma httpInstance_retried:
  "httpInstance e (refreshed_world w d) (retried_request c d) =
     (record_event (refreshed_world w d) (Dispatch (retried_request c d)),
      retry_result e (retried_request c d))"
  by (simp add: httpInstance_sent request_interceptor_retried sent_retried)

lemma onRejected_events:
  assumes "status r = 401" and "\<not> sent c"
  shows "trace (fst (onRejected e w (AxiosError (Some r) c))) =
     trace w @ RefreshExchange (meliRefresh (userConfig w)) #
       (case refreshAccessToken e (meliRefresh (userConfig w)) of
          RefreshThrows x \<Rightarrow> []
        | RefreshReturns d \<Rightarrow>
            if error d \<noteq> None then []
            else [StoreAccess (access_token d), StoreRefresh (refresh_token d), TokensUpdate d]
              @ (case emitAsync e d of
                   EmitRejects x \<Rightarrow> []
                 | EmitResolves \<Rightarrow> [Dispatch (retried_request c d)]))"
  using assms
  by (simp add: onRejected_refresh httpInstance_retried trace_refreshed_world
        split: refresh_outcome.splits emit_outcome.splits)

lemma onRejected_refresh_le1:
  "\<exists>evs. trace (fst (onRejected e w err)) = trace w @ evs \<and> refresh_exchanges evs \<le> 1"
proof (cases "error_status err = Some 401 \<and> \<not> error_sent err")
  case False
  then have "onRejected e w err = (w, Inl err)"
    by (intro onRejected_passes) auto
  then show ?thesis by (simp add: refresh_exchanges_def)
next
  case True
  then obtain r c where err: "err = AxiosError (Some r) c" and r: "status r = 401" and c: "\<not> sent c"
    by (cases err) (auto simp: error_sent_def)
  show ?thesis
    unfolding err onRejected_events [OF r c]
    by (auto simp: refresh_exchanges_def split: refresh_outcome.splits emit_outcome.splits)
qed

lemma httpInstance_refresh_le1:
  "refresh_exchanges (new_events w (fst (httpInstance e w c))) \<le> 1"
proof (cases "transport e (request_interceptor w c)")
  case (Resolved res)
  then show ?thesis
    by (simp add: httpInstance_unfold new_events_def refresh_exchanges_def)
next
  case (RejectedAxios r)
  obtain evs where
    "trace (fst (onRejected e (record_event w (Dispatch (request_interceptor w c)))
        (AxiosError r (request_interceptor w c)))) =
       trace (record_event w (Dispatch (request_interceptor w c))) @ evs"
    and "refresh_exchanges evs \<le> 1"
    using onRejected_refresh_le1 by blast
  with RejectedAxios show ?thesis
    by (simp add: httpInstance_unfold new_events_def refresh_exchanges_def)
next
  case (RejectedOther m)
  then show ?thesis
    by (simp add: httpInstance_unfold onRejected_passes new_events_def refresh_exchanges_def)
qed

lemma httpInstance_401_events:
  assumes "\<not> sent c" and "transport e (request_interceptor w c) = RejectedAxios (Some r)"
    and "status r = 401"
  shows "trace (fst (httpInstance e w c)) =
      trace w @ Dispatch (request_interceptor w c) # RefreshExchange (meliRefresh (userConfig w)) #
       (case refreshAccessToken e (meliRefresh (userConfig w)) of
          RefreshThrows x \<Rightarrow> []
        | RefreshReturns d \<Rightarrow>
            if error d \<noteq> None then []
            else [StoreAccess (access_token d), StoreRefresh (refresh_token d), TokensUpdate d]
              @ (case emitAsync e d of
                   EmitRejects x \<Rightarrow> []
                 | EmitResolves \<Rightarrow> [Dispatch (retried_request (request_interceptor w c) d)]))"
proof -
  have "\<not> sent (request_interceptor w c)"
    using assms(1) by simp
  from onRejected_events [OF assms(3) this] assms(2) show ?thesis
    by (simp add: httpInstance_unfold)
qed

text \<open>Evaluating the client on the concrete inputs.\<close>

lemmas concrete_inputs =
  seller7_def sites_request_def request_config_def response_of_def fresh_tokens_def
  invalid_grant_def expired_once_def env_refreshes_def env_unlinked_def env_listener_fails_def
  env_answers_def env_offline_def env_adapter_throws_def

lemmas client_steps =
  httpInstance.simps onRejected.simps Let_def request_interceptor_def set_Authorization_def
  token_def set_token_def set_refreshToken_def record_event_def status_blocked_def
  error_sent_def errorCodes_def instance_get_def

subsection \<open>The claims on the interceptor\<close>

text \<open>
  C2. An error whose status is not 401, and an error on a request that carries the
  marker, goes back to the caller as it came: the result is the same error, and the
  world is the one the interceptor was entered with, so nothing was exchanged, stored or
  dispatched.
\<close>

theorem other_errors_pass_unchanged:
  assumes "error_status err \<noteq> Some 401 \<or> error_sent err"
  shows "onRejected e w err = (w, Inl err)
       \<and> refresh_exchanges (new_events w (fst (onRejected e w err))) = 0
       \<and> dispatches (new_events w (fst (onRejected e w err))) = 0"
proof -
  have same: "onRejected e w err = (w, Inl err)"
    using assms by (rule onRejected_passes)
  then have "new_events w (fst (onRejected e w err)) = []"
    by (simp add: new_events_def)
  with same show ?thesis
    by (simp add: refresh_exchanges_def dispatches_def)
qed

theorem other_errors_pass_unchanged_witness:
  "onRejected env_refreshes seller7 (AxiosError (Some (response_of 500)) sites_request) =
     (seller7, Inl (AxiosError (Some (response_of 500)) sites_request))
   \<and> onRejected env_refreshes seller7 (AxiosError (Some (response_of 401)) (sites_request\<lparr>sent := True\<rparr>)) =
     (seller7, Inl (AxiosError (Some (response_of 401)) (sites_request\<lparr>sent := True\<rparr>)))"
  using
    other_errors_pass_unchanged [where err = "AxiosError (Some (response_of 500)) sites_request"
      and e = env_refreshes and w = seller7]
    other_errors_pass_unchanged [where err = "AxiosError (Some (response_of 401)) (sites_request\<lparr>sent := True\<rparr>)"
      and e = env_refreshes and w = seller7]
  by (simp add: response_of_def error_sent_def)

text \<open>
  C3. When a 401 arrives on a request without the marker and the refresh exchange
  returns data with an \<^verbatim>\<open>error\<close> key, the interceptor throws the exception that asks
  to link the account again. The only event it adds is the exchange: the request is not
  dispatched again, and the stored tokens are the ones it started with.
\<close>

theorem failed_refresh_asks_to_relink:
  assumes "status r = 401" and "\<not> sent c"
    and "refreshAccessToken e (meliRefresh (userConfig w)) = RefreshReturns d"
    and "error d \<noteq> None"
  shows "onRejected e w (AxiosError (Some r) c) =
           (record_event w (RefreshExchange (meliRefresh (userConfig w))),
            Inl (UnauthorizedException ''Please link meli again'' LinkMeli))
         \<and> userConfig (fst (onRejected e w (AxiosError (Some r) c))) = userConfig w
         \<and> dispatches (new_events w (fst (onRejected e w (AxiosError (Some r) c)))) = 0"
  using assms
  by (simp add: onRejected_refresh new_events_def dispatches_def)

theorem failed_refresh_asks_to_relink_witness:
  "onRejected env_unlinked seller7 (AxiosError (Some (response_of 401)) sites_request) =
     (record_event seller7 (RefreshExchange ''r0''),
      Inl (UnauthorizedException ''Please link meli again'' LinkMeli))
   \<and> userConfig (fst (onRejected env_unlinked seller7 (AxiosError (Some (response_of 401)) sites_request))) =
       userConfig seller7"
  using failed_refresh_asks_to_relink [where r = "response_of 401" and c = sites_request
      and e = env_unlinked and w = seller7 and d = invalid_grant]
  by (simp add: concrete_inputs)

text \<open>
  C4. When a 401 arrives on a request without the marker and the refresh exchange
  returns data without an \<^verbatim>\<open>error\<close> key, the stored access and refresh tokens become
  the returned ones. The events the interceptor adds are, in this order, the exchange,
  the two stores, the notification and, when the notification resolves, the dispatch of
  the marked request, whose \<^verbatim>\<open>Authorization\<close> header is the bearer of the new access
  token.
\<close>

theorem retry_carries_new_token:
  assumes "status r = 401" and "\<not> sent c"
    and "refreshAccessToken e (meliRefresh (userConfig w)) = RefreshReturns d"
    and "error d = None"
  shows "meliAccess (userConfig (fst (onRejected e w (AxiosError (Some r) c)))) = access_token d
       \<and> meliRefresh (userConfig (fst (onRejected e w (AxiosError (Some r) c)))) = refresh_token d
       \<and> new_events w (fst (onRejected e w (AxiosError (Some r) c))) =
            [RefreshExchange (meliRefresh (userConfig w)), StoreAccess (access_token d),
             StoreRefresh (refresh_token d), TokensUpdate d]
            @ (case emitAsync e d of
                 EmitResolves \<Rightarrow> [Dispatch (retried_request c d)]
               | EmitRejects x \<Rightarrow> [])
       \<and> Authorization (retried_request c d) = Some (''Bearer '' @ access_token d)"
  using assms
  by (simp add: onRejected_refresh httpInstance_retried userConfig_refreshed_world
        trace_refreshed_world new_events_def Authorization_retried
        split: emit_outcome.splits)

theorem retry_carries_new_token_witness:
  "meliAccess (userConfig (fst (onRejected env_refreshes seller7
       (AxiosError (Some (response_of 401)) sites_request)))) = ''fresh''
   \<and> meliRefresh (userConfig (fst (onRejected env_refreshes seller7
       (AxiosError (Some (response_of 401)) sites_request)))) = ''r1''
   \<and> new_events seller7 (fst (onRejected env_refreshes seller7
       (AxiosError (Some (response_of 401)) sites_request))) =
       [RefreshExchange ''r0'', StoreAccess ''fresh'', StoreRefresh ''r1'', TokensUpdate fresh_tokens,
        Dispatch (retried_request sites_request fresh_tokens)]
   \<and> Authorization (retried_request sites_request fresh_tokens) = Some ''Bearer fresh''"
  using retry_carries_new_token [where r = "response_of 401" and c = sites_request
      and e = env_refreshes and w = seller7 and d = fresh_tokens]
  by (simp add: concrete_inputs)

text \<open>
  C9. When the refresh exchange has returned data without an \<^verbatim>\<open>error\<close> key, the
  interceptor emits the notification and waits for it. If the notification resolves, the
  marked request is dispatched after it, and what the interceptor gives its caller is
  the outcome of that dispatch, a response or an error. If the notification rejects, the
  interceptor rejects with the same error and the request is not dispatched again.
\<close>

theorem broadcast_gates_retry:
  assumes "status r = 401" and "\<not> sent c"
    and "refreshAccessToken e (meliRefresh (userConfig w)) = RefreshReturns d"
    and "error d = None"
  shows "(emitAsync e d = EmitResolves \<longrightarrow>
            onRejected e w (AxiosError (Some r) c) =
              (record_event (refreshed_world w d) (Dispatch (retried_request c d)),
               retry_result e (retried_request c d)))
       \<and> (emitAsync e d = EmitRejects x \<longrightarrow>
            onRejected e w (AxiosError (Some r) c) = (refreshed_world w d, Inl x))
       \<and> last (trace (refreshed_world w d)) = TokensUpdate d"
  using assms
  by (simp add: onRejected_refresh httpInstance_retried trace_refreshed_world)

theorem broadcast_gates_retry_witness:
  "onRejected env_refreshes seller7 (AxiosError (Some (response_of 401)) sites_request) =
     (record_event (refreshed_world seller7 fresh_tokens)
        (Dispatch (retried_request sites_request fresh_tokens)),
      Inr (response_of 200))
   \<and> onRejected env_listener_fails seller7 (AxiosError (Some (response_of 401)) sites_request) =
     (refreshed_world seller7 fresh_tokens, Inl (OtherError ''listener failed''))"
  using
    broadcast_gates_retry [where r = "response_of 401" and c = sites_request
      and e = env_refreshes and w = seller7 and d = fresh_tokens]
    broadcast_gates_retry [where r = "response_of 401" and c = sites_request
      and e = env_listener_fails and w = seller7 and d = fresh_tokens
      and x = "OtherError ''listener failed''"]
  by (simp add: concrete_inputs retry_result_def retried_request_def set_Authorization_def)

text \<open>
  C9 as stated fails where the notification rejects. The upstream answers 401, the
  refresh exchange returns new tokens and a listener fails: the tokens are stored, the
  caller gets the listener's error, and the only dispatch on the trace is the first.
\<close>

theorem listener_failure_counterexample:
  "httpInstance env_listener_fails seller7 sites_request =
     (\<lparr>userConfig = \<lparr>meliAccess = ''fresh'', meliRefresh = ''r1'', meliId = 7\<rparr>,
       trace =
         [Dispatch \<lparr>method' = GET, url = ''/sites/MLA'', params = None, data = None,
            headers = [(''Authorization'', ''Bearer stale'')], sent = False\<rparr>,
          RefreshExchange ''r0'', StoreAccess ''fresh'', StoreRefresh ''r1'',
          TokensUpdate fresh_tokens]\<rparr>,
      Inl (OtherError ''listener failed''))"
  by (simp add: client_steps concrete_inputs)

text \<open>
  C1. A request without the marker whose first dispatch is answered 401 makes the
  interceptor perform exactly one refresh exchange. The request is dispatched a second
  time, and then exactly once, when the exchange returns data without an \<^verbatim>\<open>error\<close> key
  and the notification resolves; otherwise the first dispatch is the only one. No call
  of the instance, whatever the request and the answers, performs more than one refresh
  exchange.
\<close>

theorem one_refresh_per_request:
  assumes "\<not> sent c" and "transport e (request_interceptor w c) = RejectedAxios (Some r)"
    and "status r = 401"
  shows "refresh_exchanges (new_events w (fst (httpInstance e w c))) = 1
       \<and> dispatches (new_events w (fst (httpInstance e w c))) =
           (case refreshAccessToken e (meliRefresh (userConfig w)) of
              RefreshReturns d \<Rightarrow> if error d = None \<and> emitAsync e d = EmitResolves then 2 else 1
            | RefreshThrows x \<Rightarrow> 1)
       \<and> refresh_exchanges (new_events w' (fst (httpInstance e' w' c'))) \<le> 1"
proof -
  note events = httpInstance_401_events [OF assms]
  have "refresh_exchanges (new_events w (fst (httpInstance e w c))) = 1"
    unfolding events new_events_def
    by (simp add: refresh_exchanges_def split: refresh_outcome.splits emit_outcome.splits)
  moreover have "dispatches (new_events w (fst (httpInstance e w c))) =
           (case refreshAccessToken e (meliRefresh (userConfig w)) of
              RefreshReturns d \<Rightarrow> if error d = None \<and> emitAsync e d = EmitResolves then 2 else 1
            | RefreshThrows x \<Rightarrow> 1)"
    unfolding events new_events_def
    by (simp add: dispatches_def split: refresh_outcome.splits emit_outcome.splits)
  ultimately show ?thesis
    using httpInstance_refresh_le1 by simp
qed

theorem one_refresh_per_request_witness:
  "refresh_exchanges (new_events seller7 (fst (httpInstance env_refreshes seller7 sites_request))) = 1
   \<and> dispatches (new_events seller7 (fst (httpInstance env_refreshes seller7 sites_request))) = 2"
  using one_refresh_per_request [where c = sites_request and e = env_refreshes and w = seller7
      and r = "response_of 401"]
  by (simp add: concrete_inputs request_interceptor_def set_Authorization_def)

text \<open>
  C1 as stated fails where the refresh exchange fails. The upstream answers 401 to a
  request without the marker and the refresh endpoint answers \<^verbatim>\<open>invalid_grant\<close>: there
  is one exchange, and the request is dispatched once, not twice.
\<close>

theorem refresh_failure_counterexample:
  "httpInstance env_unlinked seller7 sites_request =
     (\<lparr>userConfig = \<lparr>meliAccess = ''stale'', meliRefresh = ''r0'', meliId = 7\<rparr>,
       trace =
         [Dispatch \<lparr>method' = GET, url = ''/sites/MLA'', params = None, data = None,
            headers = [(''Authorization'', ''Bearer stale'')], sent = False\<rparr>,
          RefreshExchange ''r0'']\<rparr>,
      Inl (UnauthorizedException ''Please link meli again'' LinkMeli))
   \<and> dispatches (new_events seller7 (fst (httpInstance env_unlinked seller7 sites_request))) = 1"
  by (simp add: client_steps concrete_inputs new_events_def dispatches_def)

section \<open>What the methods do with a failed dispatch\<close>

lemma call_method_catch:
  "\<not> is_GetItem op \<Longrightarrow> call_method e w op = catch_isAxiosError (dispatch_of e w op)"
  by (cases op)
     (simp_all add: getQuestionsResponseTime_def getQuestions_def answerQuestion_def
        deleteQuestion_def searchForItems_def publishItem_def addDescription_def pauseItem_def
        activateItem_def changeItemStock_def getItems_def getUserInfo_def getOrders_def
        getOrderInfo_def getOrderMessages_def sendMessage_def getResource_def
        split: prod.splits)

text \<open>
  C8. For each of the seventeen methods other than \<^verbatim>\<open>getItem\<close>: when the dispatch
  fails with an error of axios, the method returns the error's \<^verbatim>\<open>response\<close>, which is
  the upstream response when the upstream answered and \<^verbatim>\<open>undefined\<close> when it did not;
  when the dispatch fails with any other error, the method throws that error.
\<close>

theorem methods_return_axios_errors:
  assumes "\<not> is_GetItem op" and "dispatch_of e w op = (w', Inl err)"
  shows "(err = AxiosError (Some r) c \<longrightarrow> call_method e w op = (w', Inr (Response r)))
       \<and> (err = AxiosError None c \<longrightarrow> call_method e w op = (w', Inr Undefined))
       \<and> (\<not> isAxiosError err \<longrightarrow> call_method e w op = (w', Inl err))"
  using assms by (auto simp: call_method_catch catch_isAxiosError_def)

theorem methods_return_axios_errors_witness:
  "snd (call_method (env_answers 404) seller7 (GetResource ''/sites/MLA'')) =
     Inr (Response (response_of 404))
   \<and> snd (call_method env_adapter_throws seller7 (GetResource ''/sites/MLA'')) =
     Inl (OtherError ''TypeError'')"
  using
    methods_return_axios_errors [where op = "GetResource ''/sites/MLA''" and e = "env_answers 404"
      and w = seller7 and w' = "record_event seller7 (Dispatch (request_interceptor seller7 sites_request))"
      and err = "AxiosError (Some (response_of 404)) (request_interceptor seller7 sites_request)"
      and r = "response_of 404" and c = "request_interceptor seller7 sites_request"]
    methods_return_axios_errors [where op = "GetResource ''/sites/MLA''" and e = env_adapter_throws
      and w = seller7 and w' = "record_event seller7 (Dispatch (request_interceptor seller7 sites_request))"
      and err = "OtherError ''TypeError''"]
  by (simp add: client_steps concrete_inputs)

text \<open>
  C8 as stated fails twice. \<^verbatim>\<open>getItem\<close> returns \<^verbatim>\<open>undefined\<close> for an error that is
  not of axios, where the claim has it thrown. And when the upstream cannot be reached,
  the error is one of axios without a response, and a method that tests
  \<^verbatim>\<open>isAxiosError\<close> returns its \<^verbatim>\<open>response\<close>, \<^verbatim>\<open>undefined\<close>, where the claim has the
  error thrown.
\<close>

theorem swallowed_errors_counterexample:
  "snd (dispatch_of env_adapter_throws seller7 (GetItem ''MLA1'' None)) = Inl (OtherError ''TypeError'')
   \<and> snd (call_method env_adapter_throws seller7 (GetItem ''MLA1'' None)) = Inr Undefined
   \<and> snd (dispatch_of env_offline seller7 (GetResource ''/sites/MLA'')) =
       Inl (AxiosError None \<lparr>method' = GET, url = ''/sites/MLA'', params = None, data = None,
              headers = [(''Authorization'', ''Bearer stale'')], sent = False\<rparr>)
   \<and> snd (call_method env_offline seller7 (GetResource ''/sites/MLA'')) = Inr Undefined"
  by (simp add: client_steps concrete_inputs getItem_def getResource_def
        catch_as_AxiosError_def catch_isAxiosError_def)

end
